theory Spec2Isabelle
  imports Main "HOL-Library.Sublist" "HOL-Library.Product_Lexorder"
begin

section \<open>RepoMapper server: a model of \<open>repomap_server.py\<close>\<close>

text \<open>
  The module is the service layer around the map engine: project lookup
  (\<open>ProjectConfig.get_project_root\<close>), directory enumeration (\<open>find_src_files\<close>) and the
  two tools \<open>repo_map\<close> and \<open>search_identifiers\<close>. The engine itself (class \<open>RepoMap\<close>),
  the tokenizer (\<open>count_tokens\<close>) and the path arithmetic of \<open>pathlib\<close> are imported by
  the module; they enter the model as parameters.
\<close>

subsection \<open>Strings\<close>

text \<open>
  A Python \<open>str\<close> is a sequence of Unicode code points, here a list of numbers; indices
  and lengths count code points. \<open>lit\<close> gives the \<open>str\<close> of a literal of the source,
  all of which are ASCII.
\<close>

type_synonym str = "nat list"

definition lit :: "string \<Rightarrow> str" where
  "lit s = map of_char s"

text \<open>\<open>s.startswith(p)\<close>\<close>

fun startswith :: "str \<Rightarrow> str \<Rightarrow> bool" where
  "startswith s [] = True"
| "startswith [] (c # p) = False"
| "startswith (d # s) (c # p) = (d = c \<and> startswith s p)"

text \<open>
  \<open>s.find(sub)\<close>: the lowest index at which \<open>sub\<close> occurs in \<open>s\<close>, \<open>-1\<close> when it
  does not occur. \<open>find_from\<close> carries the index of the position being tried.
\<close>

fun find_from :: "str \<Rightarrow> str \<Rightarrow> int \<Rightarrow> int" where
  "find_from sub [] i = (if startswith [] sub then i else - 1)"
| "find_from sub (c # s) i = (if startswith (c # s) sub then i else find_from sub s (i + 1))"

definition find_str :: "str \<Rightarrow> str \<Rightarrow> int" where
  "find_str s sub = find_from sub s 0"

text \<open>\<open>sub in s\<close>: substring containment.\<close>

fun str_in :: "str \<Rightarrow> str \<Rightarrow> bool" where
  "str_in sub [] = startswith [] sub"
| "str_in sub (c # s) = (startswith (c # s) sub \<or> str_in sub s)"

subsection \<open>The environment\<close>

text \<open>
  What \<open>os.path.isdir\<close>, \<open>os.path.isfile\<close> and \<open>os.walk\<close> see: below a path there is
  nothing, a file, or a directory with its entries in the order \<open>os.scandir\<close> lists
  them. Symbolic links are not modelled.
\<close>

datatype node = File | Dir "(str \<times> node) list"

type_synonym filesystem = "str \<Rightarrow> node option"

text \<open>
  The functions of the runtime that the module calls:
  \<^item> \<open>lower\<close> is \<open>str.lower\<close>, the case mapping of the Unicode tables of the runtime. It
    is a parameter, and the properties below hold for every such function;
  \<^item> \<open>fs\<close> is the file system;
  \<^item> \<open>resolve\<close> is \<open>str(Path(f).resolve())\<close>, which raises for some paths (an embedded
    null character, a loop of symbolic links): \<open>Inl\<close> with the exception's text;
  \<^item> \<open>relative_to\<close> is \<open>str(Path(f).relative_to(root))\<close>, which raises when \<open>f\<close> is
    not below \<open>root\<close>;
  \<^item> \<open>path_div\<close> is \<open>str(Path(root) / rel)\<close>.

  The calls of the logger do not change what the tools return and are left out.
\<close>

record env =
  lower :: "str \<Rightarrow> str"
  fs :: filesystem
  resolve :: "str \<Rightarrow> str + str"
  relative_to :: "str \<Rightarrow> str \<Rightarrow> str + str"
  path_div :: "str \<Rightarrow> str \<Rightarrow> str"

subsection \<open>Project registry\<close>

text \<open>
  \<open>projects.json\<close> is a JSON object whose \<open>projects\<close> entry maps a project key to an
  object with the optional entries \<open>root\<close> and \<open>description\<close>. A Python dict iterates
  in insertion order, so the entry is an association list. \<open>projects = None\<close> is a
  configuration without a \<open>projects\<close> entry. The entries are taken to be well typed:
  each project is an object, and its \<open>root\<close>, when present, a string.
\<close>

record project_data =
  root :: "str option"
  description :: "str option"

record config =
  projects :: "(str \<times> project_data) list option"

text \<open>The loop of \<open>get_project_root\<close> over \<open>projects.items()\<close>.\<close>

fun lookup_root :: "env \<Rightarrow> (str \<times> project_data) list \<Rightarrow> str \<Rightarrow> str" where
  "lookup_root e [] project_name = []"
| "lookup_root e ((key, project_data) # rest) project_name =
     (if lower e key = lower e project_name
      then (case root project_data of Some r \<Rightarrow> r | None \<Rightarrow> [])
      else lookup_root e rest project_name)"

definition get_project_root :: "env \<Rightarrow> config \<Rightarrow> str \<Rightarrow> str" where
  "get_project_root e cfg project_name =
     lookup_root e (case projects cfg of Some ps \<Rightarrow> ps | None \<Rightarrow> []) project_name"

subsection \<open>Directory enumeration\<close>

text \<open>\<open>os.path.join(a, b)\<close> on POSIX.\<close>

definition path_join :: "str \<Rightarrow> str \<Rightarrow> str" where
  "path_join a b =
     (if startswith b (lit ''/'') then b
      else if a = [] \<or> last a = of_char CHR ''/'' then a @ b
      else a @ lit ''/'' @ b)"

text \<open>The filter of line 21, which prunes the directory names \<open>os.walk\<close> descends into.\<close>

definition keep_dir :: "str \<Rightarrow> bool" where
  "keep_dir d_name =
     (\<not> startswith d_name (lit ''.'')
      \<and> d_name \<notin> set [lit ''node_modules'', lit ''__pycache__'', lit ''venv'', lit ''env''])"

text \<open>The inner loop over \<open>f_list\<close>, the entries of \<open>r\<close> that are not directories.\<close>

fun src_files_in :: "str \<Rightarrow> (str \<times> node) list \<Rightarrow> str list" where
  "src_files_in r [] = []"
| "src_files_in r ((f, File) # rest) =
     (if \<not> startswith f (lit ''.'') then path_join r f # src_files_in r rest
      else src_files_in r rest)"
| "src_files_in r ((d_name, Dir sub) # rest) = src_files_in r rest"

text \<open>
  The loop over \<open>os.walk(directory)\<close>, top-down: the files of \<open>r\<close> first, then the walk
  of each directory that the filter keeps, in order.
\<close>

fun walk_tree :: "str \<Rightarrow> node \<Rightarrow> str list"
  and walk_dirs :: "str \<Rightarrow> (str \<times> node) list \<Rightarrow> str list" where
  "walk_tree r File = []"
| "walk_tree r (Dir entries) = src_files_in r entries @ walk_dirs r entries"
| "walk_dirs r [] = []"
| "walk_dirs r ((f, File) # rest) = walk_dirs r rest"
| "walk_dirs r ((d_name, Dir sub) # rest) =
     (if keep_dir d_name then walk_tree (path_join r d_name) (Dir sub) else [])
     @ walk_dirs r rest"

definition find_src_files :: "filesystem \<Rightarrow> str \<Rightarrow> str list" where
  "find_src_files files directory =
     (case files directory of
        Some (Dir entries) \<Rightarrow> walk_tree directory (Dir entries)
      | Some File \<Rightarrow> [directory]
      | None \<Rightarrow> [])"

text \<open>
  For stating properties: \<open>has_file es ds f\<close> holds when, starting in a directory with
  entries \<open>es\<close>, the directory names \<open>ds\<close> lead to a directory that has the file \<open>f\<close>;
  \<open>split_path\<close> cuts a path at each \<open>/\<close>.
\<close>

fun has_file :: "(str \<times> node) list \<Rightarrow> str list \<Rightarrow> str \<Rightarrow> bool" where
  "has_file es [] f = ((f, File) \<in> set es)"
| "has_file es (d # ds) f =
     list_ex (\<lambda>(n, t). n = d \<and> (case t of Dir sub \<Rightarrow> has_file sub ds f | File \<Rightarrow> False)) es"

fun split_path :: "str \<Rightarrow> str list" where
  "split_path [] = [[]]"
| "split_path (c # s) =
     (if c = of_char CHR ''/'' then [] # split_path s
      else (case split_path s of [] \<Rightarrow> [[c]] | w # ws \<Rightarrow> (c # w) # ws))"

subsection \<open>The tool \<open>repo_map\<close>\<close>

text \<open>
  The arguments of the tool after \<open>project_name\<close>; an omitted optional list is \<open>None\<close>.
\<close>

record repo_map_args =
  chat_files :: "str list option"
  other_files :: "str list option"
  token_limit :: int
  exclude_unranked :: bool
  force_refresh :: bool
  mentioned_files :: "str list option"
  mentioned_idents :: "str list option"
  verbose :: bool
  max_context_window :: "int option"

text \<open>
  What the tool hands to the engine: the keyword arguments of \<open>RepoMap(...)\<close> and of
  \<open>get_repo_map(...)\<close>.
\<close>

record map_request =
  rm_map_tokens :: int
  rm_root :: str
  rm_verbose :: bool
  rm_exclude_unranked :: bool
  rm_max_context_window :: "int option"
  rm_chat_files :: "str list"
  rm_other_files :: "str list"
  rm_mentioned_fnames :: "str set option"
  rm_mentioned_idents :: "str set option"
  rm_force_refresh :: bool

text \<open>
  The engine, seen from the tool: constructing \<open>RepoMap\<close> raises (with the exception's
  text), \<open>get_repo_map\<close> raises, or it returns a map, which may be \<open>None\<close> or empty.
\<close>

datatype engine_outcome = Init_raised str | Run_raised str | Map_content "str option"

type_synonym engine = "map_request \<Rightarrow> engine_outcome"

record tag =
  rel_fname :: str
  line :: int
  name :: str
  kind :: str

record search_result =
  res_file :: str
  res_line :: int
  res_name :: str
  res_kind :: str
  res_context :: str

text \<open>The dictionary a tool returns: \<open>{"error": e}\<close>, \<open>{"map": m}\<close> or \<open>{"results": rs}\<close>.\<close>

datatype response =
  ErrorResponse str | MapResponse str | ResultsResponse "search_result list"

definition not_found :: "str \<Rightarrow> str" where
  "not_found project_name =
     lit ''Project '' @ lit [CHR 0x27] @ project_name @ lit [CHR 0x27]
     @ lit '' not found in projects.json''"

text \<open>Line 132, \<open>chat_files or []\<close>, and lines 138 to 143.\<close>

definition chat_files_list :: "repo_map_args \<Rightarrow> str list" where
  "chat_files_list a = (case chat_files a of Some cs \<Rightarrow> cs | None \<Rightarrow> [])"

definition effective_other_files :: "filesystem \<Rightarrow> str \<Rightarrow> repo_map_args \<Rightarrow> str list" where
  "effective_other_files files project_root a =
     (case other_files a of
        Some (f # rest) \<Rightarrow> f # rest
      | _ \<Rightarrow> find_src_files files project_root)"

text \<open>
  The list comprehensions of lines 156 and 157: the paths resolved in order; the first
  exception ends the comprehension.
\<close>

fun resolve_all :: "env \<Rightarrow> str list \<Rightarrow> str + str list" where
  "resolve_all e [] = Inr []"
| "resolve_all e (f # rest) =
     (case resolve e f of
        Inl msg \<Rightarrow> Inl msg
      | Inr p \<Rightarrow>
          (case resolve_all e rest of
             Inl msg \<Rightarrow> Inl msg
           | Inr ps \<Rightarrow> Inr (p # ps)))"

text \<open>
  Lines 119 to 161 of \<open>repo_map\<close>: an early return, an exception of \<open>resolve\<close>, which no
  \<open>try\<close> encloses and which so reaches the caller, or the request for the engine.
\<close>

datatype prepared = Early response | Raised str | Request map_request

definition prepare_request ::
  "env \<Rightarrow> config option \<Rightarrow> str \<Rightarrow> repo_map_args \<Rightarrow> prepared" where
  "prepare_request e project_config project_name a =
     (case project_config of
        None \<Rightarrow>
          Early (ErrorResponse (lit ''Server not fully initialized. ProjectConfig is missing.''))
      | Some cfg \<Rightarrow>
          let project_root = get_project_root e cfg project_name in
          if project_root = [] then Early (ErrorResponse (not_found project_name))
          else
            let mentioned_fnames_set =
                  (case mentioned_files a of Some (m # ms) \<Rightarrow> Some (set (m # ms)) | _ \<Rightarrow> None);
                mentioned_idents_set =
                  (case mentioned_idents a of Some (m # ms) \<Rightarrow> Some (set (m # ms)) | _ \<Rightarrow> None);
                effective_other = effective_other_files (fs e) project_root a
            in
              if chat_files_list a = [] \<and> effective_other = []
              then Early (MapResponse (lit ''No files found to generate a map.''))
              else
                (case resolve e project_root of
                   Inl msg \<Rightarrow> Raised msg
                 | Inr root_path \<Rightarrow>
                (case resolve_all e (chat_files_list a) of
                   Inl msg \<Rightarrow> Raised msg
                 | Inr abs_chat_files \<Rightarrow>
                (case resolve_all e effective_other of
                   Inl msg \<Rightarrow> Raised msg
                 | Inr abs_other_files \<Rightarrow>
                     let abs_other_files' =
                           filter (\<lambda>f. f \<notin> set abs_chat_files) abs_other_files
                     in Request \<lparr>rm_map_tokens = token_limit a,
                                 rm_root = root_path,
                                 rm_verbose = verbose a,
                                 rm_exclude_unranked = exclude_unranked a,
                                 rm_max_context_window = max_context_window a,
                                 rm_chat_files = abs_chat_files,
                                 rm_other_files = abs_other_files',
                                 rm_mentioned_fnames = mentioned_fnames_set,
                                 rm_mentioned_idents = mentioned_idents_set,
                                 rm_force_refresh = force_refresh a\<rparr>))))"

text \<open>Lines 163 to 191: running the engine and wrapping what it gives.\<close>

definition run_engine :: "engine \<Rightarrow> map_request \<Rightarrow> response" where
  "run_engine eng req =
     (case eng req of
        Init_raised msg \<Rightarrow> ErrorResponse (lit ''Failed to initialize RepoMap: '' @ msg)
      | Run_raised msg \<Rightarrow> ErrorResponse (lit ''Error generating repository map: '' @ msg)
      | Map_content map_content \<Rightarrow>
          MapResponse (case map_content of
                         Some (c # cs) \<Rightarrow> c # cs
                       | _ \<Rightarrow> lit ''No repository map could be generated.''))"

text \<open>
  The tool: \<open>Inr\<close> is the dictionary it returns, \<open>Inl\<close> an exception that reaches the
  caller.
\<close>

definition repo_map ::
  "env \<Rightarrow> engine \<Rightarrow> config option \<Rightarrow> str \<Rightarrow> repo_map_args \<Rightarrow> str + response" where
  "repo_map e eng project_config project_name a =
     (case prepare_request e project_config project_name a of
        Early early \<Rightarrow> Inr early
      | Raised msg \<Rightarrow> Inl msg
      | Request req \<Rightarrow> Inr (run_engine eng req))"

subsection \<open>The tool \<open>search_identifiers\<close>\<close>

record search_args =
  query :: str
  max_results :: int
  context_lines :: int
  include_definitions :: bool
  include_references :: bool

text \<open>
  The engine, seen from this tool: constructing \<open>RepoMap(root=...)\<close> (\<open>Some\<close> the
  exception's text when it raises), \<open>get_tags(file_path, rel_path)\<close> and
  \<open>render_tree(file_path, rel_fname, lines)\<close>, each of which may raise (\<open>Inl\<close>).
\<close>

record search_engine =
  new_repo_map :: "str \<Rightarrow> str option"
  get_tags :: "str \<Rightarrow> str \<Rightarrow> str + tag list"
  render_tree :: "str \<Rightarrow> str \<Rightarrow> int list \<Rightarrow> str + str"

text \<open>Lines 270 to 274: the tags of all files, in order; the first exception ends the loop.\<close>

fun collect_tags ::
  "env \<Rightarrow> search_engine \<Rightarrow> str \<Rightarrow> str list \<Rightarrow> str + tag list" where
  "collect_tags e se project_root [] = Inr []"
| "collect_tags e se project_root (file_path # rest) =
     (case relative_to e file_path project_root of
        Inl msg \<Rightarrow> Inl msg
      | Inr rel_path \<Rightarrow>
          (case get_tags se file_path rel_path of
             Inl msg \<Rightarrow> Inl msg
           | Inr tags \<Rightarrow>
               (case collect_tags e se project_root rest of
                  Inl msg \<Rightarrow> Inl msg
                | Inr later \<Rightarrow> Inr (tags @ later))))"

text \<open>Lines 277 to 284: the loop that appends the matching tags.\<close>

fun select_matching :: "env \<Rightarrow> str \<Rightarrow> bool \<Rightarrow> bool \<Rightarrow> tag list \<Rightarrow> tag list" where
  "select_matching e query_lower incl_defs incl_refs [] = []"
| "select_matching e query_lower incl_defs incl_refs (t # ts) =
     (if str_in query_lower (lower e (name t))
      then (if (kind t = lit ''def'' \<and> incl_defs) \<or> (kind t = lit ''ref'' \<and> incl_refs)
            then t # select_matching e query_lower incl_defs incl_refs ts
            else select_matching e query_lower incl_defs incl_refs ts)
      else select_matching e query_lower incl_defs incl_refs ts)"

text \<open>
  Line 287: the sort key, a Python tuple of a \<open>bool\<close> and an \<open>int\<close>, compared
  lexicographically with \<open>False < True\<close>. \<open>list.sort\<close> is stable, as \<open>sort_key\<close> is.
\<close>

definition relevance :: "env \<Rightarrow> str \<Rightarrow> tag \<Rightarrow> bool \<times> int" where
  "relevance e query_lower x =
     (kind x \<noteq> lit ''def'', find_str (lower e (name x)) query_lower)"

definition sort_matching :: "env \<Rightarrow> str \<Rightarrow> tag list \<Rightarrow> tag list" where
  "sort_matching e query_lower matching_tags =
     sort_key (relevance e query_lower) matching_tags"

text \<open>Line 290: the slice \<open>xs[:k]\<close>; a negative \<open>k\<close> counts from the end.\<close>

definition slice_to :: "'a list \<Rightarrow> int \<Rightarrow> 'a list" where
  "slice_to xs k = (if 0 \<le> k then take (nat k) xs else take (length xs - nat (- k)) xs)"

text \<open>
  Lines 295 to 306: the context of one tag, the lines from \<open>max(1, line - context_lines)\<close>
  to \<open>line + context_lines\<close> as \<open>render_tree\<close> renders them.
\<close>

definition context_of ::
  "env \<Rightarrow> search_engine \<Rightarrow> str \<Rightarrow> int \<Rightarrow> tag \<Rightarrow> str + str" where
  "context_of e se project_root ctx_lines t =
     (let file_path = path_div e project_root (rel_fname t);
          start_line = max 1 (line t - ctx_lines);
          end_line = line t + ctx_lines;
          context_range = [start_line..end_line]
      in render_tree se file_path (rel_fname t) context_range)"

text \<open>
  Lines 293 to 315: one result for each tag whose rendered context is not empty; an
  exception of \<open>render_tree\<close> ends the loop.
\<close>

fun format_results ::
  "env \<Rightarrow> search_engine \<Rightarrow> str \<Rightarrow> int \<Rightarrow> tag list \<Rightarrow> str + search_result list" where
  "format_results e se project_root ctx_lines [] = Inr []"
| "format_results e se project_root ctx_lines (t # ts) =
     (case context_of e se project_root ctx_lines t of
        Inl msg \<Rightarrow> Inl msg
      | Inr context \<Rightarrow>
          (case format_results e se project_root ctx_lines ts of
             Inl msg \<Rightarrow> Inl msg
           | Inr results \<Rightarrow>
               Inr (if context \<noteq> []
                    then \<lparr>res_file = rel_fname t, res_line = line t, res_name = name t,
                          res_kind = kind t, res_context = context\<rparr> # results
                    else results)))"

text \<open>For stating properties: the tag a result was made from.\<close>

definition result_tag :: "search_result \<Rightarrow> tag" where
  "result_tag r =
     \<lparr>rel_fname = res_file r, line = res_line r, name = res_name r, kind = res_kind r\<rparr>"

text \<open>
  The tags that line 290 leaves in \<open>matching_tags\<close>, given the tags of all files.
\<close>

definition selected_tags :: "env \<Rightarrow> search_args \<Rightarrow> tag list \<Rightarrow> tag list" where
  "selected_tags e a all_tags =
     (let query_lower = lower e (query a);
          matching_tags =
            select_matching e query_lower (include_definitions a) (include_references a)
              all_tags
      in slice_to (sort_matching e query_lower matching_tags) (max_results a))"

text \<open>The \<open>try\<close> block, lines 255 to 317: \<open>Inl\<close> is an exception caught at line 319.\<close>

definition search_body ::
  "env \<Rightarrow> search_engine \<Rightarrow> str \<Rightarrow> search_args \<Rightarrow> str + search_result list" where
  "search_body e se project_root a =
     (case new_repo_map se project_root of
        Some msg \<Rightarrow> Inl msg
      | None \<Rightarrow>
          (case collect_tags e se project_root (find_src_files (fs e) project_root) of
             Inl msg \<Rightarrow> Inl msg
           | Inr all_tags \<Rightarrow>
               format_results e se project_root (context_lines a)
                 (selected_tags e a all_tags)))"

definition search_identifiers ::
  "env \<Rightarrow> search_engine \<Rightarrow> config option \<Rightarrow> str \<Rightarrow> search_args \<Rightarrow> response" where
  "search_identifiers e se project_config project_name a =
     (case project_config of
        None \<Rightarrow>
          ErrorResponse (lit ''Server not fully initialized. ProjectConfig is missing.'')
      | Some cfg \<Rightarrow>
          let project_root = get_project_root e cfg project_name in
          if project_root = [] then ErrorResponse (not_found project_name)
          else (case search_body e se project_root a of
                  Inl msg \<Rightarrow> ErrorResponse (lit ''Error searching identifiers: '' @ msg)
                | Inr results \<Rightarrow> ResultsResponse results))"

subsection \<open>The map engine\<close>

text \<open>
  Modelled from the spec: \<open>RepoMap.get_repo_map\<close>, the map renderer of the engine (module
  \<open>repomap_class\<close> is not among the sources), after section 4.5 of the specification.
  The ranked candidates and the tree renderer are given by their contracts only, so they
  are parameters: \<open>num_candidates\<close> is the number of ranked candidate tags of a request,
  \<open>render req n\<close> the trial map of its \<open>n\<close> top-ranked candidates, \<open>token_counter\<close>
  the injected counter and \<open>window_budget\<close> the budget derived from
  \<open>max_context_window\<close>.
\<close>

record engine_parts =
  token_counter :: "str \<Rightarrow> int"
  num_candidates :: "map_request \<Rightarrow> nat"
  render :: "map_request \<Rightarrow> nat \<Rightarrow> str"
  window_budget :: "int \<Rightarrow> int"

text \<open>
  Step 5: with \<open>max_context_window\<close> supplied and no chat files, the budget is derived
  from the window rather than from \<open>token_limit\<close>.
\<close>

definition effective_budget :: "engine_parts \<Rightarrow> map_request \<Rightarrow> int" where
  "effective_budget parts req =
     (case rm_max_context_window req of
        Some w \<Rightarrow> if rm_chat_files req = [] then window_budget parts w else rm_map_tokens req
      | None \<Rightarrow> rm_map_tokens req)"

text \<open>
  Step 3: binary search over the inclusion counts \<open>lo, ..., hi - 1\<close> for the largest
  count whose trial map fits; \<open>best\<close> is the largest fitting count met so far.
\<close>

function fit_search :: "(nat \<Rightarrow> bool) \<Rightarrow> nat \<Rightarrow> nat \<Rightarrow> nat option \<Rightarrow> nat option" where
  "fit_search fits lo hi best =
     (if hi \<le> lo then best
      else let mid = (lo + hi) div 2 in
           if fits mid then fit_search fits (Suc mid) hi (Some mid)
           else fit_search fits lo mid best)"
  by pat_completeness auto
termination
  by (relation "measure (\<lambda>(fits, lo, hi, best). hi - lo)") auto

definition fits_budget :: "engine_parts \<Rightarrow> map_request \<Rightarrow> nat \<Rightarrow> bool" where
  "fits_budget parts req n =
     (token_counter parts (render parts req n) \<le> effective_budget parts req)"

text \<open>
  The failure policy: with no candidates there is nothing to map (\<open>None\<close>); when no
  trial map fits, the smallest rendering, that of the single top-ranked candidate.
\<close>

definition generate_map :: "engine_parts \<Rightarrow> map_request \<Rightarrow> str option" where
  "generate_map parts req =
     (if num_candidates parts req = 0 then None
      else (case fit_search (fits_budget parts req) 1 (Suc (num_candidates parts req)) None of
              Some n \<Rightarrow> Some (render parts req n)
            | None \<Rightarrow> Some (render parts req 1)))"

definition spec_engine :: "engine_parts \<Rightarrow> engine" where
  "spec_engine parts req = Map_content (generate_map parts req)"

subsection \<open>Example data\<close>

text \<open>
  A lowering for the examples: on strings of code points below 256 it is \<open>str.lower\<close>,
  which there maps \<open>A\<close> to \<open>Z\<close> and the capital letters from 192 to 222, except the
  sign 215, to the code point 32 above.
\<close>

definition latin1_lower :: "str \<Rightarrow> str" where
  "latin1_lower s =
     map (\<lambda>c. if (65 \<le> c \<and> c \<le> 90) \<or> (192 \<le> c \<and> c \<le> 222 \<and> c \<noteq> 215) then c + 32 else c) s"

text \<open>The key of the fourth project is \<open>Ecole\<close> with a capital E acute, code point 201.\<close>

definition demo_config :: config where
  "demo_config = \<lparr>projects = Some
     [(lit ''Alpha'', \<lparr>root = Some (lit ''/srv/alpha''), description = None\<rparr>),
      (lit ''beta'', \<lparr>root = None, description = Some (lit ''no root'')\<rparr>),
      (lit ''ALPHA'', \<lparr>root = Some (lit ''/srv/other''), description = None\<rparr>),
      (201 # lit ''cole'', \<lparr>root = Some (lit ''/srv/ecole''), description = None\<rparr>),
      (lit ''dotted'', \<lparr>root = Some (lit ''/home/dev/.repos/app''), description = None\<rparr>),
      (lit ''empty'', \<lparr>root = Some (lit ''/srv/empty''), description = None\<rparr>)]\<rparr>"

definition alpha_tree :: "(str \<times> node) list" where
  "alpha_tree =
     [(lit ''main.py'', File),
      (lit ''.git'', Dir [(lit ''config'', File)]),
      (lit ''src'', Dir [(lit ''util.py'', File), (lit ''.secret.py'', File),
                         (lit ''venv'', Dir [(lit ''site.py'', File)])]),
      (lit ''node_modules'', Dir [(lit ''dep.js'', File)])]"

definition demo_fs :: filesystem where
  "demo_fs p =
     (if p = lit ''/srv/alpha'' then Some (Dir alpha_tree)
      else if p = lit ''/home/dev/.repos/app'' then Some (Dir [(lit ''main.py'', File)])
      else if p = lit ''/srv/empty'' then Some (Dir [(lit ''.git'', Dir [(lit ''config'', File)])])
      else None)"

text \<open>
  Resolution for the examples: an absolute path is kept, a relative one is taken from
  \<open>/srv/alpha\<close>, and a path with the null character raises.
\<close>

definition demo_resolve :: "str \<Rightarrow> str + str" where
  "demo_resolve f =
     (if 0 \<in> set f then Inl (lit ''embedded null byte'')
      else if startswith f (lit ''/'') then Inr f
      else Inr (lit ''/srv/alpha/'' @ f))"

definition demo_relative_to :: "str \<Rightarrow> str \<Rightarrow> str + str" where
  "demo_relative_to f r =
     (if f = r then Inr (lit ''.'')
      else if startswith f (r @ lit ''/'') then Inr (drop (length r + 1) f)
      else Inl (lit ''not in the subpath''))"

definition demo_env :: env where
  "demo_env = \<lparr>lower = latin1_lower, fs = demo_fs, resolve = demo_resolve,
                relative_to = demo_relative_to, path_div = path_join\<rparr>"

definition demo_args :: repo_map_args where
  "demo_args = \<lparr>chat_files = Some [], other_files = Some [], token_limit = 1,
                 exclude_unranked = False, force_refresh = False, mentioned_files = None,
                 mentioned_idents = None, verbose = False, max_context_window = None\<rparr>"

text \<open>
  An engine for the examples: one token for each code point, one candidate for each other
  file, a trial map that lists the first \<open>n\<close> of them, and half of the window as the
  budget derived from it.
\<close>

definition listing :: "map_request \<Rightarrow> nat \<Rightarrow> str" where
  "listing req n = concat (map (\<lambda>f. f @ lit '';'') (take n (rm_other_files req)))"

definition demo_parts :: engine_parts where
  "demo_parts = \<lparr>token_counter = (\<lambda>s. int (length s)),
                  num_candidates = (\<lambda>req. length (rm_other_files req)),
                  render = listing,
                  window_budget = (\<lambda>w. w div 2)\<rparr>"

text \<open>
  An engine whose map is always empty, a call with a chat file, a call that repeats an
  other file, and a call with a chat file that cannot be resolved.
\<close>

definition empty_engine :: engine where
  "empty_engine req = Map_content (Some [])"

definition chat_args :: repo_map_args where
  "chat_args = \<lparr>chat_files = Some [lit ''main.py''],
                 other_files = Some [lit ''/srv/alpha/main.py'', lit ''/srv/alpha/src/util.py''],
                 token_limit = 8192, exclude_unranked = False, force_refresh = False,
                 mentioned_files = None, mentioned_idents = None, verbose = False,
                 max_context_window = None\<rparr>"

definition repeat_args :: repo_map_args where
  "repeat_args = \<lparr>chat_files = Some [],
                   other_files = Some [lit ''src/util.py'', lit ''/srv/alpha/src/util.py''],
                   token_limit = 8192, exclude_unranked = False, force_refresh = False,
                   mentioned_files = None, mentioned_idents = None, verbose = False,
                   max_context_window = None\<rparr>"

definition null_args :: repo_map_args where
  "null_args = \<lparr>chat_files = Some [lit ''main'' @ [0] @ lit ''.py''],
                 other_files = Some [], token_limit = 8192, exclude_unranked = False,
                 force_refresh = False, mentioned_files = None, mentioned_idents = None,
                 verbose = False, max_context_window = None\<rparr>"

text \<open>
  A search engine for the examples: fixed tags for the two source files of \<open>/srv/alpha\<close>,
  and a context that is empty for the files listed as unreadable.
\<close>

definition demo_get_tags :: "str \<Rightarrow> str \<Rightarrow> str + tag list" where
  "demo_get_tags file_path rel_path =
     (if rel_path = lit ''main.py'' then Inr
        [\<lparr>rel_fname = rel_path, line = 3, name = lit ''foo'', kind = lit ''ref''\<rparr>,
         \<lparr>rel_fname = rel_path, line = 10, name = lit ''MyFoo'', kind = lit ''def''\<rparr>,
         \<lparr>rel_fname = rel_path, line = 12, name = lit ''bar'', kind = lit ''def''\<rparr>]
      else if rel_path = lit ''src/util.py'' then Inr
        [\<lparr>rel_fname = rel_path, line = 1, name = lit ''foo'', kind = lit ''def''\<rparr>,
         \<lparr>rel_fname = rel_path, line = 7, name = lit ''food'', kind = lit ''ref''\<rparr>,
         \<lparr>rel_fname = rel_path, line = 9, name = lit ''get_foo'', kind = lit ''def''\<rparr>]
      else Inr [])"

definition demo_render_tree ::
  "str list \<Rightarrow> str \<Rightarrow> str \<Rightarrow> int list \<Rightarrow> str + str" where
  "demo_render_tree unreadable file_path rel lines =
     Inr (if file_path \<in> set unreadable then [] else lit ''...'')"

definition demo_search :: "str list \<Rightarrow> search_engine" where
  "demo_search unreadable =
     \<lparr>new_repo_map = (\<lambda>r. None), get_tags = demo_get_tags,
      render_tree = demo_render_tree unreadable\<rparr>"

definition demo_search_args :: search_args where
  "demo_search_args = \<lparr>query = lit ''Foo'', max_results = 50, context_lines = 2,
                        include_definitions = True, include_references = True\<rparr>"

text \<open>The tags of the two source files of \<open>/srv/alpha\<close>, in the order of the walk.\<close>

definition demo_tags :: "tag list" where
  "demo_tags =
     [\<lparr>rel_fname = lit ''main.py'', line = 3, name = lit ''foo'', kind = lit ''ref''\<rparr>,
      \<lparr>rel_fname = lit ''main.py'', line = 10, name = lit ''MyFoo'', kind = lit ''def''\<rparr>,
      \<lparr>rel_fname = lit ''main.py'', line = 12, name = lit ''bar'', kind = lit ''def''\<rparr>,
      \<lparr>rel_fname = lit ''src/util.py'', line = 1, name = lit ''foo'', kind = lit ''def''\<rparr>,
      \<lparr>rel_fname = lit ''src/util.py'', line = 7, name = lit ''food'', kind = lit ''ref''\<rparr>,
      \<lparr>rel_fname = lit ''src/util.py'', line = 9, name = lit ''get_foo'', kind = lit ''def''\<rparr>]"

text \<open>The results of the search for \<open>Foo\<close> in \<open>/srv/alpha\<close>.\<close>

definition demo_results :: "search_result list" where
  "demo_results =
     [\<lparr>res_file = lit ''src/util.py'', res_line = 1, res_name = lit ''foo'',
        res_kind = lit ''def'', res_context = lit ''...''\<rparr>,
      \<lparr>res_file = lit ''main.py'', res_line = 10, res_name = lit ''MyFoo'',
        res_kind = lit ''def'', res_context = lit ''...''\<rparr>,
      \<lparr>res_file = lit ''src/util.py'', res_line = 9, res_name = lit ''get_foo'',
        res_kind = lit ''def'', res_context = lit ''...''\<rparr>,
      \<lparr>res_file = lit ''main.py'', res_line = 3, res_name = lit ''foo'',
        res_kind = lit ''ref'', res_context = lit ''...''\<rparr>,
      \<lparr>res_file = lit ''src/util.py'', res_line = 7, res_name = lit ''food'',
        res_kind = lit ''ref'', res_context = lit ''...''\<rparr>]"

text \<open>
  A search engine whose only tags are two definitions in \<open>main.py\<close>: \<open>abcfoo\<close>, and
  \<open>eefoo\<close> with two letters e acute, code point 233.
\<close>

definition accent_get_tags :: "str \<Rightarrow> str \<Rightarrow> str + tag list" where
  "accent_get_tags file_path rel_path =
     (if rel_path = lit ''main.py'' then Inr
        [\<lparr>rel_fname = rel_path, line = 1, name = lit ''abcfoo'', kind = lit ''def''\<rparr>,
         \<lparr>rel_fname = rel_path, line = 2, name = [233, 233] @ lit ''foo'', kind = lit ''def''\<rparr>]
      else Inr [])"

definition accent_search :: search_engine where
  "accent_search =
     \<lparr>new_repo_map = (\<lambda>r. None), get_tags = accent_get_tags,
      render_tree = demo_render_tree []\<rparr>"

section \<open>Properties\<close>

subsection \<open>Project lookup\<close>





subsection \<open>Directory enumeration\<close>

lemma has_file_here: "(f, File) \<in> set es \<Longrightarrow> has_file es [] f"
  by simp

lemma has_file_below:
  "(d, Dir sub) \<in> set es \<Longrightarrow> has_file sub ds f \<Longrightarrow> has_file es (d # ds) f"
  by (force simp: list_ex_iff)

lemma src_files_in_sound:
  "p \<in> set (src_files_in r es) \<Longrightarrow>
     \<exists>f. (f, File) \<in> set es \<and> \<not> startswith f (lit ''.'') \<and> p = path_join r f"
  by (induction r es rule: src_files_in.induct) (auto split: if_splits)

lemma walk_tree_sound:
  "p \<in> set (walk_tree r t) \<Longrightarrow>
     \<exists>es ds f. t = Dir es \<and> has_file es ds f \<and> (\<forall>d \<in> set ds. keep_dir d)
        \<and> \<not> startswith f (lit ''.'') \<and> p = foldl path_join r (ds @ [f])"
  and walk_dirs_sound:
  "p \<in> set (walk_dirs r es') \<Longrightarrow>
     \<exists>d sub ds f. (d, Dir sub) \<in> set es' \<and> keep_dir d \<and> has_file sub ds f
        \<and> (\<forall>d \<in> set ds. keep_dir d)
        \<and> \<not> startswith f (lit ''.'') \<and> p = foldl path_join r (d # ds @ [f])"
proof (induction r t and r es' rule: walk_tree_walk_dirs.induct)
  case (1 r)
  then show ?case by simp
next
  case (2 r entries)
  from 2(2) consider "p \<in> set (src_files_in r entries)" | "p \<in> set (walk_dirs r entries)"
    by auto
  then show ?case
  proof cases
    case 1
    from src_files_in_sound [OF 1] obtain f where
      "(f, File) \<in> set entries" "\<not> startswith f (lit ''.'')" "p = path_join r f" by blast
    then have "has_file entries [] f \<and> (\<forall>d \<in> set []. keep_dir d) \<and> \<not> startswith f (lit ''.'')
               \<and> p = foldl path_join r ([] @ [f])"
      by (simp add: has_file_here del: has_file.simps)
    then show ?thesis by blast
  next
    case b: 2
    from 2(1) [OF b] obtain d sub ds f where h: "(d, Dir sub) \<in> set entries" "keep_dir d"
      "has_file sub ds f" "\<forall>d \<in> set ds. keep_dir d" "\<not> startswith f (lit ''.'')"
      "p = foldl path_join r (d # ds @ [f])"
      by blast
    then have "has_file entries (d # ds) f \<and> (\<forall>x \<in> set (d # ds). keep_dir x)
               \<and> \<not> startswith f (lit ''.'') \<and> p = foldl path_join r ((d # ds) @ [f])"
      by (simp add: has_file_below del: has_file.simps)
    then show ?thesis by blast
  qed
next
  case (3 r)
  then show ?case by simp
next
  case (4 r f rest)
  then show ?case by auto
next
  case (5 r d_name sub rest)
  from 5(3) consider (a) "keep_dir d_name" "p \<in> set (walk_tree (path_join r d_name) (Dir sub))"
    | (b) "p \<in> set (walk_dirs r rest)"
    by (auto split: if_splits)
  then show ?case
  proof cases
    case a
    from 5(1) [OF a] obtain ds f where "has_file sub ds f" "\<forall>d \<in> set ds. keep_dir d"
      "\<not> startswith f (lit ''.'')" "p = foldl path_join (path_join r d_name) (ds @ [f])"
      by blast
    with a(1) show ?thesis
      by (intro exI [of _ d_name] exI [of _ sub] exI [of _ ds] exI [of _ f]) simp
  next
    case b
    from 5(2) [OF b] show ?thesis by (metis list.set_intros(2))
  qed
qed

text \<open>
  Claim C6, as amended. When the given root is a directory, every path the enumerator
  returns is the root joined with the names along a path of the tree below it: directory
  names of which none starts with a dot or is \<open>node_modules\<close>, \<open>__pycache__\<close>, \<open>venv\<close>
  or \<open>env\<close>, and then a file name that does not start with a dot. The components of the
  root itself are not filtered.
\<close>

theorem find_src_files_below_root:
  assumes "fs0 directory = Some (Dir es)"
    and "p \<in> set (find_src_files fs0 directory)"
  shows "\<exists>ds f. has_file es ds f
           \<and> p = foldl path_join directory (ds @ [f])
           \<and> (\<forall>d \<in> set ds. \<not> startswith d (lit ''.'')
                  \<and> d \<notin> {lit ''node_modules'', lit ''__pycache__'', lit ''venv'', lit ''env''})
           \<and> \<not> startswith f (lit ''.'')"
proof -
  from assms have "p \<in> set (walk_tree directory (Dir es))"
    by (simp add: find_src_files_def)
  from walk_tree_sound [OF this] obtain ds f where
    "has_file es ds f" "\<forall>d \<in> set ds. keep_dir d" "\<not> startswith f (lit ''.'')"
    "p = foldl path_join directory (ds @ [f])"
    by blast
  then show ?thesis
    unfolding keep_dir_def by (intro exI [of _ ds] exI [of _ f]) simp
qed

theorem find_src_files_below_root_witness:
  "demo_fs (lit ''/srv/alpha'') \<noteq> None
   \<and> find_src_files demo_fs (lit ''/srv/alpha'') = [lit ''/srv/alpha/main.py'', lit ''/srv/alpha/src/util.py'']
   \<and> (\<exists>ds f. has_file alpha_tree ds f
           \<and> (lit ''/srv/alpha/src/util.py'') = foldl path_join (lit ''/srv/alpha'') (ds @ [f])
           \<and> (\<forall>d \<in> set ds. \<not> startswith d (lit ''.'')
                  \<and> d \<notin> {lit ''node_modules'', lit ''__pycache__'', lit ''venv'', lit ''env''})
           \<and> \<not> startswith f (lit ''.''))"
proof -
  have d: "demo_fs (lit ''/srv/alpha'') = Some (Dir alpha_tree)"
    by (simp add: demo_fs_def)
  have l: "find_src_files demo_fs (lit ''/srv/alpha'') = [lit ''/srv/alpha/main.py'', lit ''/srv/alpha/src/util.py'']"
    by code_simp
  then have m: "(lit ''/srv/alpha/src/util.py'') \<in> set (find_src_files demo_fs (lit ''/srv/alpha''))"
    by simp
  from find_src_files_below_root [OF d m] d l show ?thesis by simp
qed

text \<open>
  The claim as first stated fails for a root whose own path has a hidden component: the
  returned path keeps the component \<open>.repos\<close> of the root.
\<close>

theorem find_src_files_root_components_counterexample:
  "find_src_files demo_fs (lit ''/home/dev/.repos/app'') = [lit ''/home/dev/.repos/app/main.py'']
   \<and> split_path (lit ''/home/dev/.repos/app/main.py'')
       = [[], lit ''home'', lit ''dev'', lit ''.repos'', lit ''app'', lit ''main.py'']
   \<and> startswith (lit ''.repos'') (lit ''.'')"
  by code_simp

subsection \<open>The tool \<open>repo_map\<close>\<close>

lemma prepare_request_unknown:
  "get_project_root e cfg pn = [] \<Longrightarrow>
     prepare_request e (Some cfg) pn a = Early (ErrorResponse (not_found pn))"
  by (simp add: prepare_request_def)

text \<open>
  Claim C8. When the registry is loaded and the lookup of a project name yields the empty
  root, \<open>repo_map\<close> and \<open>search_identifiers\<close> both return the dictionary with an
  \<open>error\<close> entry whose text quotes the project name. The result is a value, not an
  exception, and it is the same for every engine, file system and argument: neither a
  map nor a search is made.
\<close>

theorem unknown_project_error:
  assumes "get_project_root e cfg pn = []"
  shows "repo_map e eng (Some cfg) pn a
           = Inr (ErrorResponse (lit ''Project '' @ lit [CHR 0x27] @ pn @ lit [CHR 0x27]
                                 @ lit '' not found in projects.json''))
       \<and> search_identifiers e se (Some cfg) pn sa
           = ErrorResponse (lit ''Project '' @ lit [CHR 0x27] @ pn @ lit [CHR 0x27]
                            @ lit '' not found in projects.json'')"
  using assms
  by (simp add: repo_map_def prepare_request_unknown search_identifiers_def not_found_def)

theorem unknown_project_error_witness:
  "get_project_root demo_env demo_config (lit ''Beta'') = []
   \<and> repo_map demo_env (spec_engine demo_parts) (Some demo_config) (lit ''Beta'') demo_args
       = Inr (ErrorResponse (lit ''Project 'Beta' not found in projects.json''))
   \<and> search_identifiers demo_env (demo_search []) (Some demo_config) (lit ''Beta'')
         demo_search_args
       = ErrorResponse (lit ''Project 'Beta' not found in projects.json'')"
proof -
  have h: "get_project_root demo_env demo_config (lit ''Beta'') = []"
    by code_simp
  from unknown_project_error [OF h, of "spec_engine demo_parts" demo_args
      "demo_search []" demo_search_args] h
  show ?thesis by (simp add: lit_def)
qed

lemma prepare_request_early_cases:
  "prepare_request e pc pn a = Early r \<Longrightarrow>
     r = ErrorResponse (lit ''Server not fully initialized. ProjectConfig is missing.'')
   \<or> r = ErrorResponse (not_found pn)
   \<or> r = MapResponse (lit ''No files found to generate a map.'')"
  by (auto simp: prepare_request_def Let_def split: option.splits if_splits sum.splits)

lemma run_engine_map_nonempty: "run_engine eng req = MapResponse m \<Longrightarrow> m \<noteq> []"
  by (auto simp: run_engine_def lit_def
           split: engine_outcome.splits option.splits list.splits)

lemma prepare_request_no_files:
  assumes "get_project_root e cfg pn \<noteq> []"
  shows "prepare_request e (Some cfg) pn a
           = Early (MapResponse (lit ''No files found to generate a map.''))
     \<longleftrightarrow> chat_files_list a = []
         \<and> effective_other_files (fs e) (get_project_root e cfg pn) a = []"
  using assms by (auto simp: prepare_request_def Let_def split: sum.splits)

lemma prepare_request_resolved:
  assumes "get_project_root e cfg pn \<noteq> []"
    and "\<not> (chat_files_list a = []
            \<and> effective_other_files (fs e) (get_project_root e cfg pn) a = [])"
    and "resolve e (get_project_root e cfg pn) = Inr root_path"
    and "resolve_all e (chat_files_list a) = Inr cs"
    and "resolve_all e (effective_other_files (fs e) (get_project_root e cfg pn) a) = Inr os"
  shows "\<exists>req. prepare_request e (Some cfg) pn a = Request req"
  using assms by (auto simp: prepare_request_def Let_def)

lemma prepare_request_raises:
  assumes "get_project_root e cfg pn \<noteq> []"
    and "\<not> (chat_files_list a = []
            \<and> effective_other_files (fs e) (get_project_root e cfg pn) a = [])"
    and "resolve e (get_project_root e cfg pn) = Inl msg
         \<or> resolve_all e (chat_files_list a) = Inl msg
         \<or> resolve_all e (effective_other_files (fs e) (get_project_root e cfg pn) a) = Inl msg"
  shows "\<exists>msg'. prepare_request e (Some cfg) pn a = Raised msg'"
  using assms by (auto simp: prepare_request_def Let_def split: sum.splits)

text \<open>
  Claim C9. \<open>repo_map\<close> never returns an empty string under \<open>map\<close>: with no chat
  files and no effective other files it returns the message
  \<open>No files found to generate a map.\<close>, and when the engine yields \<open>None\<close> or the
  empty string it returns \<open>No repository map could be generated.\<close>
\<close>

theorem repo_map_never_empty:
  "(\<forall>m. repo_map e eng pc pn a = Inr (MapResponse m) \<longrightarrow> m \<noteq> [])
   \<and> (get_project_root e cfg pn \<noteq> [] \<and> chat_files_list a = []
        \<and> effective_other_files (fs e) (get_project_root e cfg pn) a = []
      \<longrightarrow> repo_map e eng (Some cfg) pn a
            = Inr (MapResponse (lit ''No files found to generate a map.'')))
   \<and> (prepare_request e pc pn a = Request req
        \<and> (eng req = Map_content None \<or> eng req = Map_content (Some []))
      \<longrightarrow> repo_map e eng pc pn a
            = Inr (MapResponse (lit ''No repository map could be generated.'')))"
proof (intro conjI allI impI)
  fix m assume "repo_map e eng pc pn a = Inr (MapResponse m)"
  then show "m \<noteq> []"
    using prepare_request_early_cases [of e pc pn a] run_engine_map_nonempty [of eng _ m]
    by (auto simp: repo_map_def lit_def split: prepared.splits)
next
  assume "get_project_root e cfg pn \<noteq> [] \<and> chat_files_list a = []
        \<and> effective_other_files (fs e) (get_project_root e cfg pn) a = []"
  then show "repo_map e eng (Some cfg) pn a
               = Inr (MapResponse (lit ''No files found to generate a map.''))"
    using prepare_request_no_files [of e cfg pn a] by (simp add: repo_map_def)
next
  assume "prepare_request e pc pn a = Request req
        \<and> (eng req = Map_content None \<or> eng req = Map_content (Some []))"
  then show "repo_map e eng pc pn a
               = Inr (MapResponse (lit ''No repository map could be generated.''))"
    by (auto simp: repo_map_def run_engine_def)
qed

theorem repo_map_never_empty_witness:
  "get_project_root demo_env demo_config (lit ''empty'') \<noteq> []
   \<and> chat_files_list demo_args = []
   \<and> effective_other_files (fs demo_env)
        (get_project_root demo_env demo_config (lit ''empty'')) demo_args = []
   \<and> repo_map demo_env empty_engine (Some demo_config) (lit ''empty'') demo_args
       = Inr (MapResponse (lit ''No files found to generate a map.''))
   \<and> empty_engine \<lparr>rm_map_tokens = 1, rm_root = lit ''/srv/alpha'', rm_verbose = False,
         rm_exclude_unranked = False, rm_max_context_window = None, rm_chat_files = [],
         rm_other_files = [lit ''/srv/alpha/main.py'', lit ''/srv/alpha/src/util.py''],
         rm_mentioned_fnames = None, rm_mentioned_idents = None, rm_force_refresh = False\<rparr>
       = Map_content (Some [])
   \<and> repo_map demo_env empty_engine (Some demo_config) (lit ''alpha'') demo_args
       = Inr (MapResponse (lit ''No repository map could be generated.''))
   \<and> lit ''No repository map could be generated.'' \<noteq> []"
proof -
  let ?req = "\<lparr>rm_map_tokens = 1, rm_root = lit ''/srv/alpha'', rm_verbose = False,
         rm_exclude_unranked = False, rm_max_context_window = None, rm_chat_files = [],
         rm_other_files = [lit ''/srv/alpha/main.py'', lit ''/srv/alpha/src/util.py''],
         rm_mentioned_fnames = None, rm_mentioned_idents = None, rm_force_refresh = False\<rparr>"
  have r: "get_project_root demo_env demo_config (lit ''empty'') \<noteq> []" by code_simp
  have c: "chat_files_list demo_args = []" by code_simp
  have o: "effective_other_files (fs demo_env)
        (get_project_root demo_env demo_config (lit ''empty'')) demo_args = []"
    by code_simp
  have p: "prepare_request demo_env (Some demo_config) (lit ''alpha'') demo_args = Request ?req"
    by code_simp
  have g: "empty_engine ?req = Map_content (Some [])"
    by (simp add: empty_engine_def)
  note t1 = repo_map_never_empty [of demo_env empty_engine "Some demo_config" "lit ''empty''"
      demo_args demo_config ?req]
  note t2 = repo_map_never_empty [of demo_env empty_engine "Some demo_config" "lit ''alpha''"
      demo_args demo_config ?req]
  from t1 r c o have a1: "repo_map demo_env empty_engine (Some demo_config) (lit ''empty'')
       demo_args = Inr (MapResponse (lit ''No files found to generate a map.''))" by blast
  from t2 p g have a2: "repo_map demo_env empty_engine (Some demo_config) (lit ''alpha'')
       demo_args = Inr (MapResponse (lit ''No repository map could be generated.''))" by blast
  from t2 a2 have a3: "lit ''No repository map could be generated.'' \<noteq> []" by blast
  from r c o a1 g a2 a3 show ?thesis by blast
qed

text \<open>
  Claim C3, as amended. For a configured project, a call with \<open>chat_files=[]\<close> and
  \<open>other_files=[]\<close> scans the project root for the other files. The tool returns the
  message \<open>No files found to generate a map.\<close>, as a value, when there are no chat
  files and no effective other files. In every other case it resolves the root and the
  files: when all of them resolve it builds the request and runs the engine on it, and
  when one of them raises the exception reaches the caller.
\<close>

theorem repo_map_no_files_result:
  assumes "get_project_root e cfg pn \<noteq> []"
  shows "(chat_files a = Some [] \<and> other_files a = Some []
            \<longrightarrow> chat_files_list a = []
              \<and> effective_other_files (fs e) (get_project_root e cfg pn) a
                  = find_src_files (fs e) (get_project_root e cfg pn))
       \<and> (chat_files_list a = []
            \<and> effective_other_files (fs e) (get_project_root e cfg pn) a = []
            \<longrightarrow> repo_map e eng (Some cfg) pn a
                  = Inr (MapResponse (lit ''No files found to generate a map.'')))
       \<and> (\<not> (chat_files_list a = []
               \<and> effective_other_files (fs e) (get_project_root e cfg pn) a = [])
            \<and> resolve e (get_project_root e cfg pn) = Inr root_path
            \<and> resolve_all e (chat_files_list a) = Inr cs
            \<and> resolve_all e (effective_other_files (fs e) (get_project_root e cfg pn) a)
                = Inr os
            \<longrightarrow> (\<exists>req. prepare_request e (Some cfg) pn a = Request req
                       \<and> repo_map e eng (Some cfg) pn a = Inr (run_engine eng req)))
       \<and> (\<not> (chat_files_list a = []
               \<and> effective_other_files (fs e) (get_project_root e cfg pn) a = [])
            \<and> (resolve e (get_project_root e cfg pn) = Inl msg
                \<or> resolve_all e (chat_files_list a) = Inl msg
                \<or> resolve_all e (effective_other_files (fs e) (get_project_root e cfg pn) a)
                    = Inl msg)
            \<longrightarrow> (\<exists>msg'. repo_map e eng (Some cfg) pn a = Inl msg'))"
proof (intro conjI impI)
  assume "chat_files a = Some [] \<and> other_files a = Some []"
  then show "chat_files_list a = []"
    and "effective_other_files (fs e) (get_project_root e cfg pn) a
           = find_src_files (fs e) (get_project_root e cfg pn)"
    by (simp_all add: chat_files_list_def effective_other_files_def)
next
  assume "chat_files_list a = []
            \<and> effective_other_files (fs e) (get_project_root e cfg pn) a = []"
  with assms show "repo_map e eng (Some cfg) pn a
                  = Inr (MapResponse (lit ''No files found to generate a map.''))"
    using prepare_request_no_files [of e cfg pn a] by (simp add: repo_map_def)
next
  assume "\<not> (chat_files_list a = []
               \<and> effective_other_files (fs e) (get_project_root e cfg pn) a = [])
            \<and> resolve e (get_project_root e cfg pn) = Inr root_path
            \<and> resolve_all e (chat_files_list a) = Inr cs
            \<and> resolve_all e (effective_other_files (fs e) (get_project_root e cfg pn) a)
                = Inr os"
  with assms obtain req where "prepare_request e (Some cfg) pn a = Request req"
    using prepare_request_resolved [of e cfg pn a root_path cs os] by blast
  then show "\<exists>req. prepare_request e (Some cfg) pn a = Request req
                       \<and> repo_map e eng (Some cfg) pn a = Inr (run_engine eng req)"
    by (simp add: repo_map_def)
next
  assume "\<not> (chat_files_list a = []
               \<and> effective_other_files (fs e) (get_project_root e cfg pn) a = [])
            \<and> (resolve e (get_project_root e cfg pn) = Inl msg
                \<or> resolve_all e (chat_files_list a) = Inl msg
                \<or> resolve_all e (effective_other_files (fs e) (get_project_root e cfg pn) a)
                    = Inl msg)"
  with assms obtain msg' where "prepare_request e (Some cfg) pn a = Raised msg'"
    using prepare_request_raises [of e cfg pn a msg] by blast
  then show "\<exists>msg'. repo_map e eng (Some cfg) pn a = Inl msg'"
    by (simp add: repo_map_def)
qed

theorem repo_map_no_files_result_witness:
  "get_project_root demo_env demo_config (lit ''empty'') \<noteq> []
   \<and> chat_files demo_args = Some [] \<and> other_files demo_args = Some []
   \<and> find_src_files (fs demo_env) (get_project_root demo_env demo_config (lit ''empty'')) = []
   \<and> repo_map demo_env (spec_engine demo_parts) (Some demo_config) (lit ''empty'') demo_args
       = Inr (MapResponse (lit ''No files found to generate a map.''))
   \<and> get_project_root demo_env demo_config (lit ''alpha'') \<noteq> []
   \<and> chat_files_list null_args \<noteq> []
   \<and> resolve_all demo_env (chat_files_list null_args) = Inl (lit ''embedded null byte'')
   \<and> repo_map demo_env (spec_engine demo_parts) (Some demo_config) (lit ''alpha'') null_args
       = Inl (lit ''embedded null byte'')"
proof -
  have r: "get_project_root demo_env demo_config (lit ''empty'') \<noteq> []" by code_simp
  have c: "chat_files demo_args = Some [] \<and> other_files demo_args = Some []" by code_simp
  have s: "find_src_files (fs demo_env)
             (get_project_root demo_env demo_config (lit ''empty'')) = []"
    by code_simp
  from repo_map_no_files_result [OF r, where a = demo_args
      and eng = "spec_engine demo_parts"] c s
  have n: "repo_map demo_env (spec_engine demo_parts) (Some demo_config) (lit ''empty'')
             demo_args = Inr (MapResponse (lit ''No files found to generate a map.''))"
    by simp
  have r': "get_project_root demo_env demo_config (lit ''alpha'') \<noteq> []" by code_simp
  have c': "chat_files_list null_args \<noteq> []" by code_simp
  have x: "resolve_all demo_env (chat_files_list null_args) = Inl (lit ''embedded null byte'')"
    by code_simp
  have v: "repo_map demo_env (spec_engine demo_parts) (Some demo_config) (lit ''alpha'')
             null_args = Inl (lit ''embedded null byte'')"
    by code_simp
  from repo_map_no_files_result [OF r', where a = null_args
      and msg = "lit ''embedded null byte''" and eng = "spec_engine demo_parts"] c' x
  have "\<exists>msg'. repo_map demo_env (spec_engine demo_parts) (Some demo_config) (lit ''alpha'')
                 null_args = Inl msg'"
    by blast
  with r c s n r' c' x v show ?thesis by blast
qed

text \<open>
  The claim as first stated fails when the scan of the root finds files: the two empty
  lists then give a map of the scanned files.
\<close>

theorem repo_map_empty_lists_scan_counterexample:
  "chat_files demo_args = Some [] \<and> other_files demo_args = Some []
   \<and> repo_map demo_env (spec_engine demo_parts) (Some demo_config) (lit ''alpha'') demo_args
       = Inr (MapResponse (lit ''/srv/alpha/main.py;''))"
  by code_simp

text \<open>
  Claim C7, as amended. In the request the tool builds, the other files are disjoint
  from the chat files: the chat files are all the resolved \<open>chat_files\<close>, and the other
  files are the resolved effective other files, in order, without those that are chat
  files. This is the request the engine is run on. A file that is repeated inside one of
  the two lists stays repeated, and the mentioned files are passed on as given.
\<close>

theorem other_files_disjoint_from_chat_files:
  assumes "prepare_request e pc pn a = Request req"
  shows "set (rm_other_files req) \<inter> set (rm_chat_files req) = {}
       \<and> resolve_all e (chat_files_list a) = Inr (rm_chat_files req)
       \<and> (\<exists>cfg os. pc = Some cfg
             \<and> resolve_all e (effective_other_files (fs e) (get_project_root e cfg pn) a)
                 = Inr os
             \<and> rm_other_files req = filter (\<lambda>f. f \<notin> set (rm_chat_files req)) os)
       \<and> rm_mentioned_fnames req
           = (case mentioned_files a of Some (m # ms) \<Rightarrow> Some (set (m # ms)) | _ \<Rightarrow> None)
       \<and> repo_map e eng pc pn a = Inr (run_engine eng req)"
  using assms
  by (auto simp: prepare_request_def repo_map_def Let_def
           split: option.splits if_splits sum.splits)

theorem other_files_disjoint_from_chat_files_witness:
  "prepare_request demo_env (Some demo_config) (lit ''alpha'') chat_args
     = Request \<lparr>rm_map_tokens = 8192, rm_root = lit ''/srv/alpha'', rm_verbose = False,
         rm_exclude_unranked = False, rm_max_context_window = None,
         rm_chat_files = [lit ''/srv/alpha/main.py''],
         rm_other_files = [lit ''/srv/alpha/src/util.py''],
         rm_mentioned_fnames = None, rm_mentioned_idents = None, rm_force_refresh = False\<rparr>
   \<and> set [lit ''/srv/alpha/src/util.py''] \<inter> set [lit ''/srv/alpha/main.py''] = {}
   \<and> resolve_all demo_env (chat_files_list chat_args) = Inr [lit ''/srv/alpha/main.py'']
   \<and> resolve_all demo_env
        (effective_other_files (fs demo_env)
           (get_project_root demo_env demo_config (lit ''alpha'')) chat_args)
       = Inr [lit ''/srv/alpha/main.py'', lit ''/srv/alpha/src/util.py'']
   \<and> repo_map demo_env (spec_engine demo_parts) (Some demo_config) (lit ''alpha'') chat_args
       = Inr (MapResponse (lit ''/srv/alpha/src/util.py;''))"
proof -
  let ?req = "\<lparr>rm_map_tokens = 8192, rm_root = lit ''/srv/alpha'', rm_verbose = False,
         rm_exclude_unranked = False, rm_max_context_window = None,
         rm_chat_files = [lit ''/srv/alpha/main.py''],
         rm_other_files = [lit ''/srv/alpha/src/util.py''],
         rm_mentioned_fnames = None, rm_mentioned_idents = None, rm_force_refresh = False\<rparr>"
  have p: "prepare_request demo_env (Some demo_config) (lit ''alpha'') chat_args = Request ?req"
    by code_simp
  have c: "resolve_all demo_env (chat_files_list chat_args) = Inr [lit ''/srv/alpha/main.py'']"
    by code_simp
  have o: "resolve_all demo_env
        (effective_other_files (fs demo_env)
           (get_project_root demo_env demo_config (lit ''alpha'')) chat_args)
       = Inr [lit ''/srv/alpha/main.py'', lit ''/srv/alpha/src/util.py'']"
    by code_simp
  have g: "run_engine (spec_engine demo_parts) ?req
             = MapResponse (lit ''/srv/alpha/src/util.py;'')"
    by code_simp
  note t = other_files_disjoint_from_chat_files [OF p, of "spec_engine demo_parts"]
  from t [THEN conjunct1]
  have d: "set [lit ''/srv/alpha/src/util.py''] \<inter> set [lit ''/srv/alpha/main.py''] = {}"
    by simp
  from t [THEN conjunct2, THEN conjunct2, THEN conjunct2, THEN conjunct2] g
  have m: "repo_map demo_env (spec_engine demo_parts) (Some demo_config) (lit ''alpha'')
             chat_args = Inr (MapResponse (lit ''/srv/alpha/src/util.py;''))"
    by simp
  from p c o d m show ?thesis by simp
qed

text \<open>
  The claim as first stated ends with a deduplicated file set. Here two other files
  resolve to the same path, and the request has that path twice.
\<close>

theorem other_files_repeat_counterexample:
  "prepare_request demo_env (Some demo_config) (lit ''alpha'') repeat_args
     = Request \<lparr>rm_map_tokens = 8192, rm_root = lit ''/srv/alpha'', rm_verbose = False,
         rm_exclude_unranked = False, rm_max_context_window = None,
         rm_chat_files = [],
         rm_other_files = [lit ''/srv/alpha/src/util.py'', lit ''/srv/alpha/src/util.py''],
         rm_mentioned_fnames = None, rm_mentioned_idents = None, rm_force_refresh = False\<rparr>
   \<and> \<not> distinct [lit ''/srv/alpha/src/util.py'', lit ''/srv/alpha/src/util.py'']"
  by code_simp

subsection \<open>The tool \<open>search_identifiers\<close>\<close>

lemma startswith_iff: "startswith s p \<longleftrightarrow> (\<exists>post. s = p @ post)"
  by (induction s p rule: startswith.induct) auto


lemma find_from_absent: "\<not> str_in sub s \<Longrightarrow> find_from sub s i = - 1"
  by (induction s arbitrary: i) auto

lemma find_from_present: "str_in sub s \<Longrightarrow> i \<le> find_from sub s i"
proof (induction s arbitrary: i)
  case Nil
  then show ?case by simp
next
  case (Cons c s)
  show ?case
  proof (cases "startswith (c # s) sub")
    case True
    then show ?thesis by simp
  next
    case False
    with Cons.prems have "str_in sub s" by simp
    from Cons.IH [OF this, of "i + 1"] False show ?thesis by simp
  qed
qed

lemma find_from_least:
  "s = pre @ sub @ post \<Longrightarrow> find_from sub s i \<le> i + int (length pre)"
proof (induction s arbitrary: i pre)
  case Nil
  then show ?case by (simp add: startswith_iff)
next
  case (Cons c s)
  show ?case
  proof (cases "startswith (c # s) sub")
    case True
    then show ?thesis by simp
  next
    case False
    with Cons.prems obtain pre' where p: "pre = c # pre'" "s = pre' @ sub @ post"
      by (cases pre) (auto simp: startswith_iff)
    from Cons.IH [OF p(2), of "i + 1"] False p(1) show ?thesis by simp
  qed
qed

lemma find_from_occurs:
  "str_in sub s \<Longrightarrow>
     \<exists>pre post. s = pre @ sub @ post \<and> find_from sub s i = i + int (length pre)"
proof (induction s arbitrary: i)
  case Nil
  then have "[] = [] @ sub @ []" by (simp add: startswith_iff)
  with Nil show ?case by auto
next
  case (Cons c s)
  show ?case
  proof (cases "startswith (c # s) sub")
    case True
    then obtain post where eq: "c # s = [] @ sub @ post" by (auto simp: startswith_iff)
    have "find_from sub (c # s) i = i + int (length ([] :: str))"
      using True by simp
    with eq show ?thesis by blast
  next
    case False
    with Cons.prems have "str_in sub s" by simp
    from Cons.IH [OF this, of "i + 1"] obtain pre post where
      "s = pre @ sub @ post" "find_from sub s (i + 1) = i + 1 + int (length pre)" by blast
    with False show ?thesis by (intro exI [of _ "c # pre"] exI [of _ post]) simp
  qed
qed

text \<open>\<open>find\<close> gives the position of the first occurrence.\<close>

lemma find_str_first_occurrence:
  assumes "str_in sub s"
  shows "\<exists>pre post. s = pre @ sub @ post \<and> find_str s sub = int (length pre)
           \<and> (\<forall>pre' post'. s = pre' @ sub @ post' \<longrightarrow> length pre \<le> length pre')"
proof -
  from find_from_occurs [OF assms, of 0] obtain pre post where
    h: "s = pre @ sub @ post" "find_str s sub = int (length pre)"
    by (auto simp: find_str_def)
  have "length pre \<le> length pre'" if "s = pre' @ sub @ post'" for pre' post'
    using find_from_least [OF that, of 0] h(2) by (simp add: find_str_def)
  with h show ?thesis by blast
qed

lemma find_str_nonneg_iff: "0 \<le> find_str s sub \<longleftrightarrow> str_in sub s"
proof (cases "str_in sub s")
  case True
  with find_from_present [of sub s 0] show ?thesis by (simp add: find_str_def)
next
  case False
  with find_from_absent [of sub s 0] show ?thesis by (simp add: find_str_def)
qed

lemma select_matching_filter:
  "select_matching e q d r ts =
     filter (\<lambda>t. str_in q (lower e (name t))
                 \<and> ((kind t = lit ''def'' \<and> d) \<or> (kind t = lit ''ref'' \<and> r))) ts"
  by (induction ts) auto

lemma format_results_tags:
  "format_results e se pr cl ts = Inr rs \<Longrightarrow>
     map result_tag rs = filter (\<lambda>t. context_of e se pr cl t \<noteq> Inr []) ts"
proof (induction ts arbitrary: rs)
  case Nil
  then show ?case by auto
next
  case (Cons t ts)
  then show ?case
    by (auto simp: result_tag_def split: sum.splits if_splits)
qed

lemma slice_to_prefix: "prefix (slice_to xs k) xs"
  by (simp add: slice_to_def take_is_prefix)

lemma slice_to_take: "0 \<le> k \<Longrightarrow> slice_to xs k = take (nat k) xs"
  by (simp add: slice_to_def)

lemma slice_to_is_take: "\<exists>n. slice_to xs k = take n xs"
  by (auto simp: slice_to_def)

lemma search_results_from:
  assumes "search_identifiers e se pc pn a = ResultsResponse rs"
  shows "\<exists>cfg all_tags. pc = Some cfg \<and> get_project_root e cfg pn \<noteq> []
           \<and> collect_tags e se (get_project_root e cfg pn)
                 (find_src_files (fs e) (get_project_root e cfg pn)) = Inr all_tags
           \<and> format_results e se (get_project_root e cfg pn) (context_lines a)
                 (selected_tags e a all_tags) = Inr rs"
  using assms
  by (auto simp: search_identifiers_def search_body_def Let_def
           split: option.splits if_splits sum.splits)

lemma sorted_selected:
  "sorted (map (relevance e (lower e (query a))) (selected_tags e a all_tags))"
proof -
  obtain n where "selected_tags e a all_tags
      = take n (sort_matching e (lower e (query a))
           (select_matching e (lower e (query a)) (include_definitions a) (include_references a)
              all_tags))"
    using slice_to_is_take by (auto simp: selected_tags_def Let_def)
  then show ?thesis
    by (simp add: sort_matching_def flip: take_map)
qed

lemma selected_subset:
  "set (selected_tags e a all_tags)
     \<subseteq> set (select_matching e (lower e (query a)) (include_definitions a) (include_references a)
              all_tags)"
proof -
  obtain n where "selected_tags e a all_tags
      = take n (sort_matching e (lower e (query a))
           (select_matching e (lower e (query a)) (include_definitions a) (include_references a)
              all_tags))"
    using slice_to_is_take by (auto simp: selected_tags_def Let_def)
  then show ?thesis
    by (auto dest: in_set_takeD simp: sort_matching_def)
qed



lemma relevance_le:
  "relevance e q x \<le> relevance e q y \<longleftrightarrow>
     (kind x = lit ''def'' \<and> kind y \<noteq> lit ''def'')
   \<or> ((kind x = lit ''def'') = (kind y = lit ''def'')
       \<and> find_str (lower e (name x)) q \<le> find_str (lower e (name y)) q)"
  by (auto simp: relevance_def less_eq_prod_def)

text \<open>
  Claim C2, as amended. In the returned results every definition comes before every
  reference, and among results of the same kind those whose lowered name contains the
  lowered query at an earlier position come first. So a definition comes before any
  reference of the same position, but a reference with an earlier position still comes
  after every definition.
\<close>

theorem search_results_order:
  assumes "search_identifiers e se pc pn a = ResultsResponse rs"
    and "i < j" and "j < length rs"
  shows "(res_kind (rs ! j) = lit ''def'' \<longrightarrow> res_kind (rs ! i) = lit ''def'')
       \<and> (res_kind (rs ! i) = res_kind (rs ! j) \<longrightarrow>
            find_str (lower e (res_name (rs ! i))) (lower e (query a))
              \<le> find_str (lower e (res_name (rs ! j))) (lower e (query a)))
       \<and> 0 \<le> find_str (lower e (res_name (rs ! i))) (lower e (query a))
       \<and> res_kind (rs ! i) \<in> {lit ''def'', lit ''ref''}"
proof -
  let ?q = "lower e (query a)"
  from search_results_from [OF assms(1)] obtain cfg all_tags where
    f: "format_results e se (get_project_root e cfg pn) (context_lines a)
          (selected_tags e a all_tags) = Inr rs"
    by blast
  let ?sel = "selected_tags e a all_tags"
  from format_results_tags [OF f] obtain P where
    m: "map result_tag rs = filter P ?sel" by blast
  have "sorted (map (relevance e ?q) (filter P ?sel))"
    using sorted_selected [of e a all_tags] by (simp add: sorted_wrt_map sorted_wrt_filter)
  with m have "sorted (map (relevance e ?q) (map result_tag rs))" by simp
  then have "sorted (map (\<lambda>r. relevance e ?q (result_tag r)) rs)" by (simp add: comp_def)
  with assms(2,3) have le: "relevance e ?q (result_tag (rs ! i)) \<le> relevance e ?q (result_tag (rs ! j))"
    by (simp add: sorted_iff_nth_mono_less)
  have "result_tag (rs ! i) \<in> set (map result_tag rs)"
    using assms(2,3) by simp
  with m have "result_tag (rs ! i) \<in> set ?sel" by simp
  with selected_subset [of e a all_tags]
  have "result_tag (rs ! i) \<in> set (select_matching e ?q (include_definitions a)
           (include_references a) all_tags)"
    by blast
  then have k: "str_in ?q (lower e (res_name (rs ! i)))"
      "res_kind (rs ! i) = lit ''def'' \<or> res_kind (rs ! i) = lit ''ref''"
    by (auto simp: select_matching_filter result_tag_def)
  have "result_tag (rs ! j) \<in> set (map result_tag rs)"
    using assms(3) by simp
  with m have "result_tag (rs ! j) \<in> set ?sel" by simp
  with selected_subset [of e a all_tags]
  have "result_tag (rs ! j) \<in> set (select_matching e ?q (include_definitions a)
           (include_references a) all_tags)"
    by blast
  then have kj: "res_kind (rs ! j) = lit ''def'' \<or> res_kind (rs ! j) = lit ''ref''"
    by (auto simp: select_matching_filter result_tag_def)
  from k(1) have pos: "0 \<le> find_str (lower e (res_name (rs ! i))) ?q"
    by (simp add: find_str_nonneg_iff)
  from le have c: "(res_kind (rs ! i) = lit ''def'' \<and> res_kind (rs ! j) \<noteq> lit ''def'')
   \<or> ((res_kind (rs ! i) = lit ''def'') = (res_kind (rs ! j) = lit ''def'')
       \<and> find_str (lower e (res_name (rs ! i))) ?q \<le> find_str (lower e (res_name (rs ! j))) ?q)"
    by (simp add: relevance_le result_tag_def)
  from c k(2) kj pos show ?thesis by auto
qed

theorem search_results_order_witness:
  "search_identifiers demo_env (demo_search []) (Some demo_config) (lit ''alpha'') demo_search_args
     = ResultsResponse demo_results
   \<and> (0 :: nat) < 1 \<and> 1 < length demo_results
   \<and> res_kind (demo_results ! 0) = res_kind (demo_results ! 1)
   \<and> find_str (lower demo_env (res_name (demo_results ! 0)))
         (lower demo_env (query demo_search_args))
        \<le> find_str (lower demo_env (res_name (demo_results ! 1)))
            (lower demo_env (query demo_search_args))
   \<and> search_identifiers demo_env accent_search (Some demo_config) (lit ''alpha'')
         demo_search_args
     = ResultsResponse
        [\<lparr>res_file = lit ''main.py'', res_line = 2, res_name = [233, 233] @ lit ''foo'',
           res_kind = lit ''def'', res_context = lit ''...''\<rparr>,
         \<lparr>res_file = lit ''main.py'', res_line = 1, res_name = lit ''abcfoo'',
           res_kind = lit ''def'', res_context = lit ''...''\<rparr>]
   \<and> find_str (lower demo_env ([233, 233] @ lit ''foo'')) (lower demo_env (lit ''Foo'')) = 2
   \<and> find_str (lower demo_env (lit ''abcfoo'')) (lower demo_env (lit ''Foo'')) = 3"
proof -
  let ?rs = "[\<lparr>res_file = lit ''main.py'', res_line = 2, res_name = [233, 233] @ lit ''foo'',
           res_kind = lit ''def'', res_context = lit ''...''\<rparr>,
         \<lparr>res_file = lit ''main.py'', res_line = 1, res_name = lit ''abcfoo'',
           res_kind = lit ''def'', res_context = lit ''...''\<rparr>]"
  have s: "search_identifiers demo_env (demo_search []) (Some demo_config) (lit ''alpha'')
             demo_search_args = ResultsResponse demo_results"
    by code_simp
  have l: "1 < length demo_results" by code_simp
  have k: "res_kind (demo_results ! 0) = res_kind (demo_results ! 1)" by code_simp
  from search_results_order [OF s _ l, of 0] k
  have o: "find_str (lower demo_env (res_name (demo_results ! 0)))
         (lower demo_env (query demo_search_args))
        \<le> find_str (lower demo_env (res_name (demo_results ! 1)))
            (lower demo_env (query demo_search_args))"
    by simp
  have s': "search_identifiers demo_env accent_search (Some demo_config) (lit ''alpha'')
              demo_search_args = ResultsResponse ?rs"
    by code_simp
  have p: "find_str (lower demo_env ([233, 233] @ lit ''foo'')) (lower demo_env (lit ''Foo'')) = 2"
    "find_str (lower demo_env (lit ''abcfoo'')) (lower demo_env (lit ''Foo'')) = 3"
    by code_simp+
  from s l k o s' p show ?thesis by simp
qed

text \<open>
  The claim as first stated puts the earlier position first. Here \<open>get_foo\<close>, a
  definition that contains the query at position 4, is returned before the reference
  \<open>foo\<close>, which contains it at position 0.
\<close>

theorem search_position_first_counterexample:
  "search_identifiers demo_env (demo_search []) (Some demo_config) (lit ''alpha'')
     \<lparr>query = lit ''Foo'', max_results = 50, context_lines = 2,
      include_definitions = True, include_references = True\<rparr>
     = ResultsResponse
        [\<lparr>res_file = lit ''src/util.py'', res_line = 1, res_name = lit ''foo'', res_kind = lit ''def'',
           res_context = lit ''...''\<rparr>,
         \<lparr>res_file = lit ''main.py'', res_line = 10, res_name = lit ''MyFoo'', res_kind = lit ''def'',
           res_context = lit ''...''\<rparr>,
         \<lparr>res_file = lit ''src/util.py'', res_line = 9, res_name = lit ''get_foo'', res_kind = lit ''def'',
           res_context = lit ''...''\<rparr>,
         \<lparr>res_file = lit ''main.py'', res_line = 3, res_name = lit ''foo'', res_kind = lit ''ref'',
           res_context = lit ''...''\<rparr>,
         \<lparr>res_file = lit ''src/util.py'', res_line = 7, res_name = lit ''food'', res_kind = lit ''ref'',
           res_context = lit ''...''\<rparr>]
   \<and> find_str (lower demo_env (lit ''get_foo'')) (lower demo_env (lit ''Foo'')) = 4
   \<and> find_str (lower demo_env (lit ''foo'')) (lower demo_env (lit ''Foo'')) = 0"
  by code_simp

lemma length_slice_to: "0 \<le> k \<Longrightarrow> length (slice_to xs k) = min (nat k) (length xs)"
  by (simp add: slice_to_def min_def)

text \<open>
  Claim C5, as amended. The tags kept by line 290 are a prefix of the sorted list of all
  matching tags, so the cut comes after the sort of the complete list; for a
  \<open>max_results\<close> that is not negative the prefix has \<open>max_results\<close> tags, or all of
  them if there are fewer. The returned results are made from the kept tags whose
  rendered context is not empty, in the same order, so there are at most \<open>max_results\<close>
  of them.
\<close>

theorem search_truncates_after_sorting:
  assumes "search_identifiers e se pc pn a = ResultsResponse rs"
  shows "\<exists>cfg all_tags.
           pc = Some cfg
         \<and> collect_tags e se (get_project_root e cfg pn)
               (find_src_files (fs e) (get_project_root e cfg pn)) = Inr all_tags
         \<and> prefix (selected_tags e a all_tags)
             (sort_matching e (lower e (query a))
                (select_matching e (lower e (query a)) (include_definitions a)
                   (include_references a) all_tags))
         \<and> (0 \<le> max_results a \<longrightarrow>
               length (selected_tags e a all_tags)
                 = min (nat (max_results a))
                     (length (select_matching e (lower e (query a)) (include_definitions a)
                                (include_references a) all_tags))
             \<and> int (length rs) \<le> max_results a)
         \<and> map result_tag rs
             = filter (\<lambda>t. context_of e se (get_project_root e cfg pn) (context_lines a) t
                              \<noteq> Inr [])
                 (selected_tags e a all_tags)"
proof -
  from search_results_from [OF assms] obtain cfg all_tags where
    h: "pc = Some cfg"
       "collect_tags e se (get_project_root e cfg pn)
          (find_src_files (fs e) (get_project_root e cfg pn)) = Inr all_tags"
       "format_results e se (get_project_root e cfg pn) (context_lines a)
          (selected_tags e a all_tags) = Inr rs"
    by blast
  let ?matching = "select_matching e (lower e (query a)) (include_definitions a)
                     (include_references a) all_tags"
  let ?sorted = "sort_matching e (lower e (query a)) ?matching"
  have sel: "selected_tags e a all_tags = slice_to ?sorted (max_results a)"
    by (simp add: selected_tags_def Let_def)
  have p: "prefix (selected_tags e a all_tags) ?sorted"
    unfolding sel by (rule slice_to_prefix)
  note m = format_results_tags [OF h(3)]
  have len: "length (selected_tags e a all_tags) = min (nat (max_results a)) (length ?matching)"
    if "0 \<le> max_results a"
    unfolding sel using that by (simp add: length_slice_to sort_matching_def)
  have "length rs = length (map result_tag rs)" by simp
  also have "\<dots> \<le> length (selected_tags e a all_tags)"
    unfolding m by (rule length_filter_le)
  finally have "int (length rs) \<le> max_results a" if "0 \<le> max_results a"
    using len [OF that] that by linarith
  with h(1,2) p m len show ?thesis by blast
qed

theorem search_truncates_after_sorting_witness:
  "search_identifiers demo_env (demo_search [lit ''/srv/alpha/src/util.py'']) (Some demo_config)
       (lit ''alpha'') (demo_search_args\<lparr>max_results := 4\<rparr>)
     = ResultsResponse
        [\<lparr>res_file = lit ''main.py'', res_line = 10, res_name = lit ''MyFoo'', res_kind = lit ''def'',
           res_context = lit ''...''\<rparr>,
         \<lparr>res_file = lit ''main.py'', res_line = 3, res_name = lit ''foo'', res_kind = lit ''ref'',
           res_context = lit ''...''\<rparr>]
   \<and> (\<exists>all_tags.
         collect_tags demo_env (demo_search [lit ''/srv/alpha/src/util.py''])
             (get_project_root demo_env demo_config (lit ''alpha''))
             (find_src_files (fs demo_env) (get_project_root demo_env demo_config (lit ''alpha'')))
           = Inr all_tags
       \<and> prefix (selected_tags demo_env (demo_search_args\<lparr>max_results := 4\<rparr>) all_tags)
           (sort_matching demo_env (lower demo_env (lit ''Foo'')) (select_matching demo_env (lower demo_env (lit ''Foo'')) True True all_tags))
       \<and> length (selected_tags demo_env (demo_search_args\<lparr>max_results := 4\<rparr>) all_tags)
           = min 4 (length (select_matching demo_env (lower demo_env (lit ''Foo'')) True True all_tags)))
   \<and> (2 :: int) \<le> 4"
proof -
  let ?a = "demo_search_args\<lparr>max_results := 4\<rparr>"
  have s: "search_identifiers demo_env (demo_search [lit ''/srv/alpha/src/util.py''])
             (Some demo_config) (lit ''alpha'') ?a
     = ResultsResponse
        [\<lparr>res_file = lit ''main.py'', res_line = 10, res_name = lit ''MyFoo'', res_kind = lit ''def'',
           res_context = lit ''...''\<rparr>,
         \<lparr>res_file = lit ''main.py'', res_line = 3, res_name = lit ''foo'', res_kind = lit ''ref'',
           res_context = lit ''...''\<rparr>]"
    by code_simp
  have a: "query ?a = lit ''Foo''" "include_definitions ?a" "include_references ?a"
    "max_results ?a = 4"
    by (simp_all add: demo_search_args_def)
  from search_truncates_after_sorting [OF s] a s show ?thesis
    by auto
qed

text \<open>
  The claim as first stated fails when a kept tag has an empty context: with
  \<open>max_results = 2\<close> the first sorted match is cut from the results, which then are
  not a prefix of the sorted matches.
\<close>

theorem search_results_not_prefix_counterexample:
  "search_identifiers demo_env (demo_search [lit ''/srv/alpha/src/util.py'']) (Some demo_config)
       (lit ''alpha'')
       \<lparr>query = lit ''Foo'', max_results = 2, context_lines = 2,
        include_definitions = True, include_references = True\<rparr>
     = ResultsResponse
        [\<lparr>res_file = lit ''main.py'', res_line = 10, res_name = lit ''MyFoo'', res_kind = lit ''def'',
           res_context = lit ''...''\<rparr>]
   \<and> collect_tags demo_env (demo_search [lit ''/srv/alpha/src/util.py'']) (lit ''/srv/alpha'')
         (find_src_files demo_fs (lit ''/srv/alpha'')) = Inr demo_tags
   \<and> sort_matching demo_env (lower demo_env (lit ''Foo'')) (select_matching demo_env (lower demo_env (lit ''Foo'')) True True demo_tags)
     = [\<lparr>rel_fname = lit ''src/util.py'', line = 1, name = lit ''foo'', kind = lit ''def''\<rparr>,
        \<lparr>rel_fname = lit ''main.py'', line = 10, name = lit ''MyFoo'', kind = lit ''def''\<rparr>,
        \<lparr>rel_fname = lit ''src/util.py'', line = 9, name = lit ''get_foo'', kind = lit ''def''\<rparr>,
        \<lparr>rel_fname = lit ''main.py'', line = 3, name = lit ''foo'', kind = lit ''ref''\<rparr>,
        \<lparr>rel_fname = lit ''src/util.py'', line = 7, name = lit ''food'', kind = lit ''ref''\<rparr>]
   \<and> \<not> prefix
         [\<lparr>rel_fname = lit ''main.py'', line = 10, name = lit ''MyFoo'', kind = lit ''def''\<rparr>]
         (sort_matching demo_env (lower demo_env (lit ''Foo'')) (select_matching demo_env (lower demo_env (lit ''Foo'')) True True demo_tags))"
  by code_simp

subsection \<open>The token budget\<close>








end
